theory Spec2Isabelle
  imports Complex_Main "HOL-Library.Char_ord" "HOL-Library.List_Lexorder"
    "HOL-Library.Product_Lexorder"
begin

section \<open>Strings and decimal digits\<close>

text \<open>
  A Go string is a sequence of bytes; it is modelled as \<^typ>\<open>string\<close> (a list of
  8-bit characters). Comparison of Go strings is bytewise lexicographic, which is the
  order of \<^typ>\<open>char list\<close> used here.
\<close>

definition isDigit :: "char \<Rightarrow> bool" where
  "isDigit c = (CHR ''0'' \<le> c \<and> c \<le> CHR ''9'')"

definition digit_val :: "char \<Rightarrow> nat" where
  "digit_val c = of_char c - 48"

definition digit_char :: "nat \<Rightarrow> char" where
  "digit_char n = char_of (48 + n mod 10)"

section \<open>Calendar dates of package time\<close>

text \<open>
  The program only handles instants at midnight UTC, produced by \<open>time.Parse\<close> from
  layouts without a clock part. Such an instant is modelled by its civil date
  (year, month, day). \<open>Time.After\<close> is then the lexicographic order of the triple, and
  the zero \<open>Time\<close> (January 1 of year 1) is the triple (1, 1, 1).
\<close>

type_synonym date = "int \<times> nat \<times> nat"

definition zero_time :: date where
  "zero_time = (1, 1, 1)"

definition IsZero :: "date \<Rightarrow> bool" where
  "IsZero t = (t = zero_time)"

fun After :: "date \<Rightarrow> date \<Rightarrow> bool" where
  "After (y, m, d) (y', m', d') = (y' < y \<or> (y' = y \<and> (m' < m \<or> (m' = m \<and> d' < d))))"

definition isLeap :: "int \<Rightarrow> bool" where
  "isLeap y = (y mod 4 = 0 \<and> (y mod 100 \<noteq> 0 \<or> y mod 400 = 0))"

definition daysIn :: "nat \<Rightarrow> int \<Rightarrow> nat" where
  "daysIn m y =
     (if m = 2 then (if isLeap y then 29 else 28)
      else if m = 4 \<or> m = 6 \<or> m = 9 \<or> m = 11 then 30 else 31)"

definition valid_date :: "date \<Rightarrow> bool" where
  "valid_date t = (case t of (y, m, d) \<Rightarrow> 1 \<le> m \<and> m \<le> 12 \<and> 1 \<le> d \<and> d \<le> daysIn m y)"

text \<open>\<open>getnum(s, true)\<close> of package time: exactly two decimal digits.\<close>

fun getnum_fixed :: "string \<Rightarrow> (nat \<times> string) option" where
  "getnum_fixed (a # b # rest) =
     (if isDigit a \<and> isDigit b then Some (digit_val a * 10 + digit_val b, rest) else None)"
| "getnum_fixed _ = None"

text \<open>A literal byte of the layout, as \<open>skip\<close> of package time consumes it.\<close>

fun skip_char :: "char \<Rightarrow> string \<Rightarrow> string option" where
  "skip_char c (a # rest) = (if a = c then Some rest else None)"
| "skip_char c [] = None"

text \<open>The four-digit year of the layout element \<open>2006\<close>.\<close>

fun getyear_long :: "string \<Rightarrow> (int \<times> string) option" where
  "getyear_long (a # b # c # d # rest) =
     (if isDigit a \<and> isDigit b \<and> isDigit c \<and> isDigit d
      then Some (int (digit_val a * 1000 + digit_val b * 100 + digit_val c * 10 + digit_val d), rest)
      else None)"
| "getyear_long _ = None"

text \<open>
  \<open>time.Parse("2006-01-02", s)\<close>: a four-digit year, a two-digit month and a two-digit
  day separated by \<open>-\<close>, nothing after them, the month in 1..12 and the day within the
  month. \<open>None\<close> stands for a non-nil error.
\<close>

definition Parse_ymd :: "string \<Rightarrow> date option" where
  "Parse_ymd s =
     (case getyear_long s of None \<Rightarrow> None
      | Some (y, s1) \<Rightarrow>
     (case skip_char CHR ''-'' s1 of None \<Rightarrow> None
      | Some s2 \<Rightarrow>
     (case getnum_fixed s2 of None \<Rightarrow> None
      | Some (m, s3) \<Rightarrow>
     (case skip_char CHR ''-'' s3 of None \<Rightarrow> None
      | Some s4 \<Rightarrow>
     (case getnum_fixed s4 of None \<Rightarrow> None
      | Some (d, s5) \<Rightarrow>
        if s5 \<noteq> [] then None
        else if valid_date (y, m, d) then Some (y, m, d) else None)))))"

text \<open>
  \<open>time.Parse("02-01-06", s)\<close>: day, month and a two-digit year. Years 69..99 are in
  the 1900s, years 00..68 in the 2000s. The model covers the strings the date pattern
  of the field extractor can capture (digits and \<open>-\<close>).
\<close>

definition Parse_dmy :: "string \<Rightarrow> date option" where
  "Parse_dmy s =
     (case getnum_fixed s of None \<Rightarrow> None
      | Some (d, s1) \<Rightarrow>
     (case skip_char CHR ''-'' s1 of None \<Rightarrow> None
      | Some s2 \<Rightarrow>
     (case getnum_fixed s2 of None \<Rightarrow> None
      | Some (m, s3) \<Rightarrow>
     (case skip_char CHR ''-'' s3 of None \<Rightarrow> None
      | Some s4 \<Rightarrow>
     (case getnum_fixed s4 of None \<Rightarrow> None
      | Some (yy, s5) \<Rightarrow>
        if s5 \<noteq> [] then None
        else (let y = (if 69 \<le> yy then int yy + 1900 else int yy + 2000)
              in if valid_date (y, m, d) then Some (y, m, d) else None))))))"

definition pad2 :: "nat \<Rightarrow> string" where
  "pad2 n = [digit_char (n div 10), digit_char n]"

definition pad4 :: "nat \<Rightarrow> string" where
  "pad4 n = [digit_char (n div 1000), digit_char (n div 100), digit_char (n div 10), digit_char n]"

text \<open>The year as \<open>Format\<close> prints it for the layout element \<open>2006\<close>.\<close>

definition format_year :: "int \<Rightarrow> string" where
  "format_year y = (if y < 0 then CHR ''-'' # pad4 (nat (- y)) else pad4 (nat y))"

text \<open>\<open>t.Format("2006-01-02")\<close>, \<open>t.Format("2006-01")\<close> and \<open>t.Format("2006/01/02")\<close>.\<close>

fun Format_ymd :: "date \<Rightarrow> string" where
  "Format_ymd (y, m, d) = format_year y @ ''-'' @ pad2 m @ ''-'' @ pad2 d"

fun Format_ym :: "date \<Rightarrow> string" where
  "Format_ym (y, m, d) = format_year y @ ''-'' @ pad2 m"

fun Format_slash :: "date \<Rightarrow> string" where
  "Format_slash (y, m, d) = format_year y @ ''/'' @ pad2 m @ ''/'' @ pad2 d"

text \<open>
  \<open>t.AddDate(0, 0, -1)\<close>: the calendar day before \<open>t\<close>. \<open>AddDate\<close> normalises a day
  number below 1 into the previous month, and a month number below 1 into the previous
  year.
\<close>

fun prev_day :: "date \<Rightarrow> date" where
  "prev_day (y, m, d) =
     (if 1 < d then (y, m, d - 1)
      else if 1 < m then (y, m - 1, daysIn (m - 1) y)
      else (y - 1, 12, 31))"

text \<open>\<open>t.AddDate(0, 0, -i)\<close> for a count \<open>i\<close> of days.\<close>

definition AddDate_back :: "date \<Rightarrow> nat \<Rightarrow> date" where
  "AddDate_back t i = (prev_day ^^ i) t"

section \<open>Transactions and summaries\<close>

text \<open>
  The \<open>float64\<close> fields are modelled as real numbers: rounding, overflow and the
  special values of IEEE arithmetic are outside the model.
\<close>

record Transaction =
  Date :: string
  Amount :: real
  Description :: string

record Summary =
  Total :: real
  Previously :: real
  ChangePercentage :: real

text \<open>
  A Go \<open>map[string]float64\<close> as an association list with distinct keys. A lookup of
  an absent key yields the zero value; \<open>m[k] += v\<close> inserts the key when absent.
\<close>

type_synonym totals = "(string \<times> real) list"

definition map_get :: "totals \<Rightarrow> string \<Rightarrow> real" where
  "map_get m k = (case map_of m k of None \<Rightarrow> 0 | Some v \<Rightarrow> v)"

fun map_add :: "string \<Rightarrow> real \<Rightarrow> totals \<Rightarrow> totals" where
  "map_add k v [] = [(k, 0 + v)]"
| "map_add k v ((k', w) # m) = (if k' = k then (k', w + v) # m else (k', w) # map_add k v m)"

definition map_keys :: "totals \<Rightarrow> string list" where
  "map_keys m = map fst m"

text \<open>The percentage change computed at the end of each period branch.\<close>

definition change_of :: "real \<Rightarrow> real \<Rightarrow> real" where
  "change_of currentTotal previousTotal =
     (if previousTotal \<noteq> 0 then ((currentTotal - previousTotal) / previousTotal) * 100 else 0)"

text \<open>The loop of the \<open>daily\<close> branch: the state is \<open>maxDate\<close> and \<open>dateTotals\<close>.\<close>

fun daily_loop :: "Transaction list \<Rightarrow> date \<times> totals \<Rightarrow> date \<times> totals" where
  "daily_loop [] st = st"
| "daily_loop (txn # txns) (maxDate, dateTotals) =
     (case Parse_ymd (Date txn) of
        None \<Rightarrow> daily_loop txns (maxDate, dateTotals)
      | Some t \<Rightarrow>
          daily_loop txns
            (if After t maxDate then t else maxDate, map_add (Date txn) (Amount txn) dateTotals))"

text \<open>The loop of the \<open>weekly\<close> branch keys the totals by the re-formatted date.\<close>

fun weekly_loop :: "Transaction list \<Rightarrow> date \<times> totals \<Rightarrow> date \<times> totals" where
  "weekly_loop [] st = st"
| "weekly_loop (txn # txns) (maxDate, dateTotals) =
     (case Parse_ymd (Date txn) of
        None \<Rightarrow> weekly_loop txns (maxDate, dateTotals)
      | Some t \<Rightarrow>
          weekly_loop txns
            (if After t maxDate then t else maxDate, map_add (Format_ymd t) (Amount txn) dateTotals))"

text \<open>The 14 iterations that split the two weeks ending on \<open>maxDate\<close>.\<close>

fun week_sums :: "totals \<Rightarrow> date \<Rightarrow> nat list \<Rightarrow> real \<times> real \<Rightarrow> real \<times> real" where
  "week_sums dateTotals maxDate [] acc = acc"
| "week_sums dateTotals maxDate (i # rest) (currentWeekTotal, previousWeekTotal) =
     (let amount = map_get dateTotals (Format_ymd (AddDate_back maxDate i))
      in week_sums dateTotals maxDate rest
           (if i < 7 then (currentWeekTotal + amount, previousWeekTotal)
            else (currentWeekTotal, previousWeekTotal + amount)))"

text \<open>The loop of the \<open>monthly\<close> branch.\<close>

fun monthly_loop :: "Transaction list \<Rightarrow> totals \<Rightarrow> totals" where
  "monthly_loop [] monthTotals = monthTotals"
| "monthly_loop (txn # txns) monthTotals =
     (case Parse_ymd (Date txn) of
        None \<Rightarrow> monthly_loop txns monthTotals
      | Some t \<Rightarrow> monthly_loop txns (map_add (Format_ym t) (Amount txn) monthTotals))"

text \<open>The loop of the default branch.\<close>

fun total_loop :: "Transaction list \<Rightarrow> real \<Rightarrow> real" where
  "total_loop [] tot = tot"
| "total_loop (t # ts) tot = total_loop ts (tot + Amount t)"

text \<open>
  \<open>calculateSummary\<close>. The error is the message of the returned \<open>error\<close>. In the
  \<open>monthly\<close> branch the keys of the map are collected in an unspecified order and then
  sorted with \<open>sort.Strings\<close>; the model collects them in insertion order.
\<close>

definition calculateSummary :: "Transaction list \<Rightarrow> string \<Rightarrow> string + Summary" where
  "calculateSummary transactions period =
     (if period = ''daily'' then
        (case daily_loop transactions (zero_time, []) of (maxDate, dateTotals) \<Rightarrow>
           if IsZero maxDate then Inl ''no valid transaction dates found''
           else
             (let currentDay = Format_ymd maxDate;
                  previousDay = Format_ymd (AddDate_back maxDate 1);
                  currentTotal = map_get dateTotals currentDay;
                  previousTotal = map_get dateTotals previousDay
              in Inr \<lparr>Total = currentTotal, Previously = previousTotal,
                      ChangePercentage = change_of currentTotal previousTotal\<rparr>))
      else if period = ''weekly'' then
        (case weekly_loop transactions (zero_time, []) of (maxDate, dateTotals) \<Rightarrow>
           if IsZero maxDate then Inl ''no valid transaction dates found''
           else
             (case week_sums dateTotals maxDate [0..<14] (0, 0) of
                (currentWeekTotal, previousWeekTotal) \<Rightarrow>
                  Inr \<lparr>Total = currentWeekTotal, Previously = previousWeekTotal,
                        ChangePercentage = change_of currentWeekTotal previousWeekTotal\<rparr>))
      else if period = ''monthly'' then
        (let monthTotals = monthly_loop transactions [];
             months = map_keys monthTotals
         in if length months = 0 then Inl ''no valid transaction months found''
            else
              (let months = sort months;
                   currentMonth = months ! (length months - 1);
                   previousMonth = (if 2 \<le> length months then months ! (length months - 2) else '''');
                   currentTotal = map_get monthTotals currentMonth;
                   previousTotal = (if previousMonth \<noteq> '''' then map_get monthTotals previousMonth else 0)
               in Inr \<lparr>Total = currentTotal, Previously = previousTotal,
                       ChangePercentage = change_of currentTotal previousTotal\<rparr>))
      else
        Inr \<lparr>Total = total_loop transactions 0, Previously = 0, ChangePercentage = 0\<rparr>)"

section \<open>Base64 decoding of message bodies\<close>

text \<open>
  \<open>base64.URLEncoding.DecodeString\<close>: the URL-safe alphabet with mandatory \<open>=\<close>
  padding. Carriage returns and line feeds are ignored wherever they stand, the bits a
  final quantum leaves over are not checked, and any other byte outside the alphabet is
  an error. \<open>None\<close> stands for a non-nil error.
\<close>

definition b64url_val :: "char \<Rightarrow> nat option" where
  "b64url_val c =
     (let n = (of_char c :: nat) in
      if 65 \<le> n \<and> n \<le> 90 then Some (n - 65)
      else if 97 \<le> n \<and> n \<le> 122 then Some (n - 71)
      else if 48 \<le> n \<and> n \<le> 57 then Some (n + 4)
      else if c = CHR ''-'' then Some 62
      else if c = CHR ''_'' then Some 63
      else None)"

definition is_newline :: "char \<Rightarrow> bool" where
  "is_newline c = (c = CHR 0x0A \<or> c = CHR 0x0D)"

text \<open>
  The bytes of one quantum of two, three or four sextets: the sextets are packed into 24
  bits and the leading \<open>dlen - 1\<close> bytes are kept.
\<close>

definition quantum_bytes :: "nat list \<Rightarrow> string" where
  "quantum_bytes dbuf =
     (let d = dbuf @ replicate (4 - length dbuf) 0;
          val = (d ! 0) * 262144 + (d ! 1) * 4096 + (d ! 2) * 64 + (d ! 3)
      in take (length dbuf - 1)
           [char_of (val div 65536), char_of (val div 256), char_of val])"

text \<open>
  The decoding loop. \<open>dbuf\<close> holds the sextets of the quantum being read. At the end of
  the input an empty quantum is the end of the data and a started one is an error. A
  padding byte is accepted after two sextets (then a second one must follow) or after
  three, and only line breaks may follow the padding.
\<close>

fun decode_from :: "nat list \<Rightarrow> string \<Rightarrow> string option" where
  "decode_from dbuf [] = (if dbuf = [] then Some [] else None)"
| "decode_from dbuf (c # src) =
     (case b64url_val c of
        Some v \<Rightarrow>
          (if length dbuf = 3
           then (case decode_from [] src of
                   None \<Rightarrow> None
                 | Some out \<Rightarrow> Some (quantum_bytes (dbuf @ [v]) @ out))
           else decode_from (dbuf @ [v]) src)
      | None \<Rightarrow>
          if is_newline c then decode_from dbuf src
          else if c \<noteq> CHR ''='' then None
          else if length dbuf < 2 then None
          else if length dbuf = 2 then
            (case dropWhile is_newline src of
               [] \<Rightarrow> None
             | c' # src' \<Rightarrow>
                 if c' \<noteq> CHR ''='' then None
                 else if dropWhile is_newline src' \<noteq> [] then None
                 else Some (quantum_bytes dbuf))
          else if dropWhile is_newline src \<noteq> [] then None
          else Some (quantum_bytes dbuf))"

definition DecodeString :: "string \<Rightarrow> string option" where
  "DecodeString s = decode_from [] s"

section \<open>The MIME part tree and the content extractor\<close>

text \<open>
  \<open>gmail.MessagePart\<close> with the fields the program reads. \<open>Body\<close> is a pointer and may
  be nil. A message fetched in full format carries a payload, and the part lists hold no
  nil entries.
\<close>

datatype MessagePartBody = MessagePartBody (Data: string)

datatype MessagePart =
  MessagePart (MimeType: string) (Body: "MessagePartBody option") (Parts: "MessagePart list")

text \<open>
  One of the two guarded decoding attempts of \<open>extractMessageContent\<close>, for the media
  type \<open>mt\<close>: the type matches, the body is there, its data is not empty and decodes.
\<close>

definition decode_as :: "string \<Rightarrow> MessagePart \<Rightarrow> string option" where
  "decode_as mt part =
     (if MimeType part = mt then
        (case Body part of
           None \<Rightarrow> None
         | Some b \<Rightarrow> if Data b \<noteq> '''' then DecodeString (Data b) else None)
      else None)"

fun extractMessageContent :: "MessagePart \<Rightarrow> string"
  and extract_nested :: "MessagePart list \<Rightarrow> string" where
  "extractMessageContent (MessagePart mt body parts) =
     (case decode_as ''text/plain'' (MessagePart mt body parts) of
        Some data \<Rightarrow> data
      | None \<Rightarrow>
          (case decode_as ''text/html'' (MessagePart mt body parts) of
             Some data \<Rightarrow> data
           | None \<Rightarrow> extract_nested parts))"
| "extract_nested [] = ''''"
| "extract_nested (nestedPart # rest) =
     (let content = extractMessageContent nestedPart
      in if content \<noteq> '''' then content else extract_nested rest)"

section \<open>Regular expressions\<close>

text \<open>
  The two patterns of the field extractor are compiled by package regexp, which reads
  its input rune by rune. \<open>utf8_width\<close> is the number of bytes of the rune at the head
  of a string, as \<open>utf8.DecodeRuneInString\<close> reports it: an ill-formed or truncated
  sequence counts as one byte.
\<close>

definition byte_in :: "nat \<Rightarrow> nat \<Rightarrow> string \<Rightarrow> nat \<Rightarrow> bool" where
  "byte_in lo hi t i = (i < length t \<and> lo \<le> (of_char (t ! i) :: nat) \<and> (of_char (t ! i) :: nat) \<le> hi)"

fun utf8_width :: "string \<Rightarrow> nat" where
  "utf8_width [] = 1"
| "utf8_width (c # t) =
     (let n = (of_char c :: nat) in
      if n < 0xC2 then 1
      else if n \<le> 0xDF then (if byte_in 0x80 0xBF t 0 then 2 else 1)
      else if n \<le> 0xEF then
        (if byte_in (if n = 0xE0 then 0xA0 else 0x80) (if n = 0xED then 0x9F else 0xBF) t 0
            \<and> byte_in 0x80 0xBF t 1
         then 3 else 1)
      else if n \<le> 0xF4 then
        (if byte_in (if n = 0xF0 then 0x90 else 0x80) (if n = 0xF4 then 0x8F else 0xBF) t 0
            \<and> byte_in 0x80 0xBF t 1 \<and> byte_in 0x80 0xBF t 2
         then 4 else 1)
      else 1)"

text \<open>
  The syntax of the patterns in use: the empty pattern, one byte out of a list, \<open>.\<close>
  (any rune but a line feed), concatenation, alternation, the greedy star and the
  capture group (both patterns have exactly one).
\<close>

datatype rx = Eps | Byte "char list" | AnyNotNL | Cat rx rx | Alt rx rx | Star rx | Cap rx

definition keep_cap :: "string option \<Rightarrow> string option \<times> string \<Rightarrow> string option \<times> string" where
  "keep_cap c m = (if fst m = None then c else fst m, snd m)"

text \<open>
  All the ways a pattern matches at the head of a string, in the order a backtracking
  matcher tries them (leftmost-first, as package regexp specifies): each with the text
  of the capture group, when the group took part, and with the rest of the string. An
  iteration of the star has to consume input.
\<close>

function rx_run :: "rx \<Rightarrow> string \<Rightarrow> (string option \<times> string) list" where
  "rx_run Eps s = [(None, s)]"
| "rx_run (Byte cs) s = (case s of [] \<Rightarrow> [] | c # t \<Rightarrow> if c \<in> set cs then [(None, t)] else [])"
| "rx_run AnyNotNL s =
     (case s of [] \<Rightarrow> []
      | c # t \<Rightarrow> if c = CHR 0x0A then [] else [(None, drop (utf8_width s) s)])"
| "rx_run (Cat a b) s = concat (map (\<lambda>m. map (keep_cap (fst m)) (rx_run b (snd m))) (rx_run a s))"
| "rx_run (Alt a b) s = rx_run a s @ rx_run b s"
| "rx_run (Star a) s =
     concat (map (\<lambda>m. if length (snd m) < length s
                        then map (keep_cap (fst m)) (rx_run (Star a) (snd m)) else [])
                 (rx_run a s))
     @ [(None, s)]"
| "rx_run (Cap a) s = map (\<lambda>m. (Some (take (length s - length (snd m)) s), snd m)) (rx_run a s)"
  by pat_completeness auto
termination
  by (relation "measure size <*lex*> measure length") auto

text \<open>
  \<open>FindStringSubmatch\<close>: the leftmost match, tried from each rune of the string in
  turn and at its end. The result holds the matched text and the text of the group, and
  is empty (nil) when the pattern matches nowhere.
\<close>

function FindStringSubmatch :: "rx \<Rightarrow> string \<Rightarrow> string list" where
  "FindStringSubmatch r s =
     (case rx_run r s of
        m # other \<Rightarrow>
          [take (length s - length (snd m)) s, (case fst m of None \<Rightarrow> '''' | Some g \<Rightarrow> g)]
      | [] \<Rightarrow> if s = [] then [] else FindStringSubmatch r (drop (utf8_width s) s))"
  by pat_completeness auto
termination
proof (relation "measure (\<lambda>p. length (snd p))")
  fix r :: rx and s :: string
  assume "s \<noteq> []"
  then have "0 < utf8_width s" by (cases s) (auto simp: Let_def)
  with \<open>s \<noteq> []\<close> show "((r, drop (utf8_width s) s), (r, s)) \<in> measure (\<lambda>p. length (snd p))"
    by simp
qed simp

declare FindStringSubmatch.simps [simp del]

definition rx_plus :: "rx \<Rightarrow> rx" where
  "rx_plus a = Cat a (Star a)"

definition rx_opt :: "rx \<Rightarrow> rx" where
  "rx_opt a = Alt a Eps"

text \<open>\<open>\s\<close> is tab, line feed, form feed, carriage return and space; \<open>\d\<close> is 0 to 9.\<close>

definition rx_space :: rx where
  "rx_space = Byte [CHR 0x09, CHR 0x0A, CHR 0x0C, CHR 0x0D, CHR '' '']"

definition rx_digit :: rx where
  "rx_digit = Byte ''0123456789''"

text \<open>
  \<open>(?i)Rs.\s*\$?([0-9,.]+)\<close>. Under \<open>(?i)\<close> the letter \<open>R\<close> stands for \<open>R\<close> and \<open>r\<close>, and the
  letter \<open>s\<close> for \<open>s\<close>, \<open>S\<close> and the long s (U+017F, the bytes C5 BF), which case folding
  puts with them. The \<open>.\<close> after them is not escaped.
\<close>

definition amountPattern :: rx where
  "amountPattern =
     Cat (Byte ''Rr'')
    (Cat (Alt (Byte ''sS'') (Cat (Byte [CHR 0xC5]) (Byte [CHR 0xBF])))
    (Cat AnyNotNL
    (Cat (Star rx_space)
    (Cat (rx_opt (Byte ''$''))
         (Cap (rx_plus (Byte ''0123456789,.'')))))))"

text \<open>\<open>on\s+(\d{2}-\d{2}-\d{2})\<close>.\<close>

definition datePattern :: rx where
  "datePattern =
     Cat (Byte ''o'')
    (Cat (Byte ''n'')
    (Cat (rx_plus rx_space)
         (Cap (Cat rx_digit (Cat rx_digit (Cat (Byte ''-'')
              (Cat rx_digit (Cat rx_digit (Cat (Byte ''-'')
              (Cat rx_digit rx_digit))))))))))"

section \<open>The markup stripper\<close>

text \<open>
  The node tree of package html. A node's children are its \<open>FirstChild\<close> followed by
  the chain of \<open>NextSibling\<close>.
\<close>

datatype NodeType =
  ErrorNode | TextNode | DocumentNode | ElementNode | CommentNode | DoctypeNode | RawNode

datatype Node = Node (Type: NodeType) (NodeData: string) (Children: "Node list")

text \<open>\<open>traverse\<close> writes to a string builder; the model returns what a call writes.\<close>

fun traverse :: "Node \<Rightarrow> string"
  and traverse_children :: "Node list \<Rightarrow> string" where
  "traverse (Node ty d cs) = (if ty = TextNode then d else '''') @ traverse_children cs"
| "traverse_children [] = ''''"
| "traverse_children (c # cs) = traverse c @ traverse_children cs"

text \<open>
  \<open>stripHTMLTags\<close>. The HTML parser is a library outside the program and is a parameter
  of the model: \<open>html_Parse s\<close> is the document \<open>html.Parse\<close> builds for \<open>s\<close>, or \<open>None\<close>
  when it returns an error.
\<close>

definition stripHTMLTags :: "(string \<Rightarrow> Node option) \<Rightarrow> string \<Rightarrow> string" where
  "stripHTMLTags html_Parse htmlContent =
     (case html_Parse htmlContent of
        None \<Rightarrow> htmlContent
      | Some doc \<Rightarrow> traverse doc)"

section \<open>The field extractor\<close>

definition dec_value :: "string \<Rightarrow> nat" where
  "dec_value ds = foldl (\<lambda>n c. n * 10 + digit_val c) 0 ds"

text \<open>
  \<open>strconv.ParseFloat(s, 64)\<close> on the strings it is called with, which consist of the
  digits and dots the amount pattern captures: digits with at most one dot and at least
  one digit. The value is the exact decimal: the rounding to \<open>float64\<close>, and the range
  error for a number beyond it, are outside the model. \<open>None\<close> stands for a non-nil
  error.
\<close>

definition ParseFloat :: "string \<Rightarrow> real option" where
  "ParseFloat s =
     (let ip = takeWhile isDigit s; rest = dropWhile isDigit s in
      case rest of
        [] \<Rightarrow> if ip = [] then None else Some (real (dec_value ip))
      | c # fr \<Rightarrow>
          if c = CHR ''.'' \<and> list_all isDigit fr \<and> (ip \<noteq> [] \<or> fr \<noteq> [])
          then Some (real (dec_value ip) + real (dec_value fr) / 10 ^ length fr)
          else None)"

text \<open>\<open>strings.ReplaceAll(s, ",", "")\<close>.\<close>

definition remove_commas :: "string \<Rightarrow> string" where
  "remove_commas s = filter (\<lambda>c. c \<noteq> CHR '','') s"

datatype parse_error =
  NoSuitableContent | CouldNotParseDetails | CouldNotParseAmount | CouldNotParseDate

text \<open>
  The text of each error; the last two are followed by the text of the library error
  they wrap, which the model leaves out.
\<close>

fun parse_error_text :: "parse_error \<Rightarrow> string" where
  "parse_error_text NoSuitableContent = ''no suitable content found in email''"
| "parse_error_text CouldNotParseDetails = ''could not parse transaction details''"
| "parse_error_text CouldNotParseAmount = ''could not parse amount: ''"
| "parse_error_text CouldNotParseDate = ''could not parse date: ''"

text \<open>
  The part of \<open>parseTransactionEmail\<close> that follows the stripping of the markup: the two
  patterns, the conversion of the amount and of the date, and the transaction.
\<close>

definition extractFields :: "string \<Rightarrow> parse_error + Transaction" where
  "extractFields body =
     (let amountMatch = FindStringSubmatch amountPattern body;
          dateMatch = FindStringSubmatch datePattern body
      in if length amountMatch < 2 \<or> length dateMatch < 2 then Inl CouldNotParseDetails
         else
           (let amountStr = remove_commas (amountMatch ! 1) in
            case ParseFloat amountStr of
              None \<Rightarrow> Inl CouldNotParseAmount
            | Some amount \<Rightarrow>
                (case Parse_dmy (dateMatch ! 1) of
                   None \<Rightarrow> Inl CouldNotParseDate
                 | Some parsedDate \<Rightarrow>
                     Inr \<lparr>Date = Format_ymd parsedDate, Amount = amount,
                          Description = ''Transaction from HTML email''\<rparr>)))"

datatype Message = Message (Id: string) (Payload: MessagePart)

definition parseTransactionEmail ::
  "(string \<Rightarrow> Node option) \<Rightarrow> Message \<Rightarrow> parse_error + Transaction" where
  "parseTransactionEmail html_Parse msg =
     (let body = extractMessageContent (Payload msg) in
      if body = '''' then Inl NoSuitableContent
      else extractFields (stripHTMLTags html_Parse body))"

section \<open>The transaction fetcher\<close>

text \<open>
  The mail provider, as the fetcher uses it: the listing of the message identifiers that
  match a query, and the fetch of one message. An error of the provider is a
  \<open>googleapi.Error\<close> with its HTTP code, or any other error; both carry their text.
\<close>

datatype provider_error = GoogleAPIError nat string | OtherError string

fun provider_error_text :: "provider_error \<Rightarrow> string" where
  "provider_error_text (GoogleAPIError code txt) = txt"
| "provider_error_text (OtherError txt) = txt"

record gmail =
  Messages_List :: "string \<Rightarrow> provider_error + string list"
  Messages_Get :: "string \<Rightarrow> provider_error + Message"

record AppError =
  Code :: nat
  Msg :: string

text \<open>What a request does to the outside, in order: the cache and the provider.\<close>

datatype event =
  CacheGet string | CacheSet string string nat | ProviderList string | ProviderGet string

definition is_provider_event :: "event \<Rightarrow> bool" where
  "is_provider_event e = (case e of ProviderList q \<Rightarrow> True | ProviderGet i \<Rightarrow> True | _ \<Rightarrow> False)"

text \<open>
  The loop of \<open>FetchTransactions\<close> over the listed messages: a message that cannot be
  fetched or parsed is logged and skipped.
\<close>

fun fetch_loop ::
  "(string \<Rightarrow> Node option) \<Rightarrow> gmail \<Rightarrow> string list \<Rightarrow> Transaction list
     \<Rightarrow> event list \<times> Transaction list" where
  "fetch_loop html_Parse g [] transactions = ([], transactions)"
| "fetch_loop html_Parse g (msgId # rest) transactions =
     (let (events, result) =
        (case Messages_Get g msgId of
           Inl err \<Rightarrow> fetch_loop html_Parse g rest transactions
         | Inr message \<Rightarrow>
             (case parseTransactionEmail html_Parse message of
                Inl err \<Rightarrow> fetch_loop html_Parse g rest transactions
              | Inr transaction \<Rightarrow> fetch_loop html_Parse g rest (transactions @ [transaction])))
      in (ProviderGet msgId # events, result))"

text \<open>The search query for a window of \<open>days\<close> days that ends today (\<open>now\<close>).\<close>

definition fetch_query :: "date \<Rightarrow> nat \<Rightarrow> string" where
  "fetch_query now days =
     ''after:'' @ Format_slash (AddDate_back now days) @ '' before:'' @ Format_slash now
       @ '' subject:(transaction OR payment OR purchase OR UPI txn)''"

definition FetchTransactions ::
  "(string \<Rightarrow> Node option) \<Rightarrow> gmail \<Rightarrow> date \<Rightarrow> nat
     \<Rightarrow> event list \<times> (AppError + Transaction list)" where
  "FetchTransactions html_Parse g now days =
     (let query = fetch_query now days in
      case Messages_List g query of
        Inl err \<Rightarrow>
          ([ProviderList query],
           (case err of
              GoogleAPIError code txt \<Rightarrow>
                if code = 403 \<or> code = 401
                then Inl \<lparr>Code = 401,
                       Msg = ''unauthorized: insufficient authentication scopes: '' @ txt\<rparr>
                else Inl \<lparr>Code = 500, Msg = ''unable to retrieve messages: '' @ txt\<rparr>
            | OtherError txt \<Rightarrow>
                Inl \<lparr>Code = 500, Msg = ''unable to retrieve messages: '' @ txt\<rparr>))
      | Inr ids \<Rightarrow>
          (let (events, transactions) = fetch_loop html_Parse g ids []
           in (ProviderList query # events, Inr transactions)))"

section \<open>The HTTP layer\<close>

definition getCacheKey :: "string \<Rightarrow> string" where
  "getCacheKey filter' = ''transactions:'' @ filter'"

text \<open>
  The number of bytes of the white-space rune at the head of a string, 0 when the head
  is not white space, as \<open>unicode.IsSpace\<close> classifies runes: the ASCII ones, U+0085 and
  U+00A0, U+1680, U+2000 to U+200A, U+2028, U+2029, U+202F, U+205F and U+3000.
\<close>

definition space_width :: "string \<Rightarrow> nat" where
  "space_width s =
     (case s of
        [] \<Rightarrow> 0
      | c # t \<Rightarrow>
          (let n = (of_char c :: nat) in
           if (9 \<le> n \<and> n \<le> 13) \<or> n = 32 then 1
           else if n = 0xC2 then (if byte_in 0x85 0x85 t 0 \<or> byte_in 0xA0 0xA0 t 0 then 2 else 0)
           else if n = 0xE1 then (if byte_in 0x9A 0x9A t 0 \<and> byte_in 0x80 0x80 t 1 then 3 else 0)
           else if n = 0xE2 then
             (if (byte_in 0x80 0x80 t 0
                    \<and> (byte_in 0x80 0x8A t 1 \<or> byte_in 0xA8 0xA9 t 1 \<or> byte_in 0xAF 0xAF t 1))
                 \<or> (byte_in 0x81 0x81 t 0 \<and> byte_in 0x9F 0x9F t 1)
              then 3 else 0)
           else if n = 0xE3 then (if byte_in 0x80 0x80 t 0 \<and> byte_in 0x80 0x80 t 1 then 3 else 0)
           else 0))"

text \<open>\<open>strings.TrimSpace(s) == ""\<close>: the string consists of white-space runes only.\<close>

function blank :: "string \<Rightarrow> bool" where
  "blank s = (if s = [] then True
              else if space_width s = 0 then False
              else blank (drop (space_width s) s))"
  by pat_completeness auto
termination
  by (relation "measure length") auto

declare blank.simps [simp del]

record Request =
  Method :: string
  Query :: "(string \<times> string) list"

text \<open>\<open>r.URL.Query().Get(k)\<close>: the first value of the parameter, the empty string without one.\<close>

definition query_Get :: "(string \<times> string) list \<Rightarrow> string \<Rightarrow> string" where
  "query_Get q k = (case map_of q k of None \<Rightarrow> '''' | Some v \<Rightarrow> v)"

record TransactionsResponse =
  summary :: Summary
  details :: "Transaction list"

text \<open>
  What the handler writes. The body of an error response is the JSON object of the
  message and the code; any other body is the bytes written.
\<close>

datatype http_body = NoBody | ErrorJSON string nat | Bytes string

record http_response =
  StatusCode :: nat
  Header :: "(string \<times> string) list"
  ResponseBody :: http_body

text \<open>
  The surroundings of a request: the configured origin, the content of the cache
  (\<open>redis_Get k\<close> is \<open>None\<close> on a miss or a read error), the JSON codec for the response
  type (\<open>None\<close> for an error), the construction of the provider client from the access
  token (the text of the error when it fails), the HTML parser, and today's date.
\<close>

record env =
  FRONTEND_URL :: string
  redis_Get :: "string \<Rightarrow> string option"
  json_Unmarshal :: "string \<Rightarrow> TransactionsResponse option"
  json_Marshal :: "TransactionsResponse \<Rightarrow> string option"
  NewGmailServiceWithClient :: "string \<Rightarrow> string + gmail"
  html_Parse :: "string \<Rightarrow> Node option"
  Now :: date

definition respondError :: "(string \<times> string) list \<Rightarrow> nat \<Rightarrow> string \<Rightarrow> http_response" where
  "respondError hdrs statusCode message =
     \<lparr>StatusCode = statusCode, Header = hdrs @ [(''Content-Type'', ''application/json'')],
      ResponseBody = ErrorJSON message statusCode\<rparr>"

text \<open>
  \<open>json.NewEncoder(w).Encode(response)\<close> writes the encoding of the response followed by
  a line feed, and nothing when the encoding fails.
\<close>

definition Encode :: "env \<Rightarrow> TransactionsResponse \<Rightarrow> http_body" where
  "Encode e response =
     (case json_Marshal e response of
        None \<Rightarrow> Bytes []
      | Some b \<Rightarrow> Bytes (b @ [CHR 0x0A]))"

definition respondJSON :: "env \<Rightarrow> (string \<times> string) list \<Rightarrow> TransactionsResponse \<Rightarrow> http_response" where
  "respondJSON e hdrs response =
     \<lparr>StatusCode = 200, Header = hdrs @ [(''Content-Type'', ''application/json'')],
      ResponseBody = Encode e response\<rparr>"

text \<open>The \<open>switch\<close> on the filter; \<open>None\<close> is its default branch.\<close>

definition filter_days :: "string \<Rightarrow> nat option" where
  "filter_days filter' =
     (if filter' = ''daily'' then Some 2
      else if filter' = ''weekly'' then Some 14
      else if filter' = ''monthly'' then Some 60
      else if filter' = ''all'' then Some 90
      else None)"

definition request_filter :: "Request \<Rightarrow> string" where
  "request_filter r = (let filter' = query_Get (Query r) ''filter'' in if filter' = '''' then ''all'' else filter')"

text \<open>The cached entry of a key, when it is there and decodes.\<close>

definition cache_hit :: "env \<Rightarrow> string \<Rightarrow> TransactionsResponse option" where
  "cache_hit e key =
     (case redis_Get e key of
        None \<Rightarrow> None
      | Some cached \<Rightarrow> json_Unmarshal e cached)"

text \<open>
  \<open>transactionsHandler\<close> after a cache miss: the token, the provider client, the
  lookback window, the fetch, the summary and the store of the result for 10 minutes.
\<close>

definition serve_uncached ::
  "env \<Rightarrow> (string \<times> string) list \<Rightarrow> Request \<Rightarrow> string \<Rightarrow> string \<Rightarrow> http_response \<times> event list" where
  "serve_uncached e hdrs r filter' key =
     (let accessToken = query_Get (Query r) ''access_token'' in
      if blank accessToken then
        (respondError hdrs 401 ''Missing access token in query string'', [])
      else
        (case NewGmailServiceWithClient e accessToken of
           Inl err \<Rightarrow> (respondError hdrs 500 (''Gmail service error: '' @ err), [])
         | Inr gmailService \<Rightarrow>
             (case filter_days filter' of
                None \<Rightarrow> (respondError hdrs 400 ''Invalid filter'', [])
              | Some days \<Rightarrow>
                  (case FetchTransactions (html_Parse e) gmailService (Now e) days of
                     (events, Inl appErr) \<Rightarrow> (respondError hdrs (Code appErr) (Msg appErr), events)
                   | (events, Inr transactions) \<Rightarrow>
                       (case calculateSummary transactions filter' of
                          Inl err \<Rightarrow> (respondError hdrs 500 err, events)
                        | Inr s \<Rightarrow>
                            (let response = \<lparr>summary = s, details = transactions\<rparr> in
                             (respondJSON e hdrs response,
                              events @
                                (case json_Marshal e response of
                                   None \<Rightarrow> []
                                 | Some respJSON \<Rightarrow> [CacheSet key respJSON 600]))))))))"

text \<open>\<open>transactionsHandler\<close>: the response and what the request did to the outside.\<close>

definition transactionsHandler :: "env \<Rightarrow> Request \<Rightarrow> http_response \<times> event list" where
  "transactionsHandler e r =
     (let hdrs = [(''Access-Control-Allow-Origin'', FRONTEND_URL e),
                  (''Access-Control-Allow-Credentials'', ''true'')]
      in if Method r = ''OPTIONS'' then
           (\<lparr>StatusCode = 200,
             Header = hdrs @ [(''Access-Control-Allow-Methods'', ''GET''),
                               (''Access-Control-Allow-Headers'', ''Content-Type, Authorization'')],
             ResponseBody = NoBody\<rparr>, [])
         else if Method r \<noteq> ''GET'' then (respondError hdrs 405 ''Method not allowed'', [])
         else
           (let filter' = request_filter r; key = getCacheKey filter' in
            case cache_hit e key of
              Some response \<Rightarrow> (respondJSON e hdrs response, [CacheGet key])
            | None \<Rightarrow>
                (let (response, events) = serve_uncached e hdrs r filter' key
                 in (response, CacheGet key # events))))"

text \<open>One of the three fetches of \<open>refreshHandler\<close>, with the error response it may end in.\<close>

definition fetch_or_respond ::
  "env \<Rightarrow> (string \<times> string) list \<Rightarrow> gmail \<Rightarrow> nat
     \<Rightarrow> event list \<times> (http_response + Transaction list)" where
  "fetch_or_respond e hdrs gmailService days =
     (case FetchTransactions (html_Parse e) gmailService (Now e) days of
        (events, Inl appErr) \<Rightarrow> (events, Inl (respondError hdrs (Code appErr) (Msg appErr)))
      | (events, Inr txns) \<Rightarrow> (events, Inr txns))"

text \<open>The store of one refreshed response for 20 minutes, skipped when it does not encode.\<close>

definition store_refreshed :: "env \<Rightarrow> string \<Rightarrow> TransactionsResponse \<Rightarrow> event list" where
  "store_refreshed e key response =
     (case json_Marshal e response of
        None \<Rightarrow> []
      | Some d \<Rightarrow> [CacheSet key d 1200])"

text \<open>
  \<open>refreshHandler\<close>: the token is checked before anything else is done; then the three
  windows are fetched, summarised and stored, and the answer carries no transactions.
\<close>

definition refreshHandler :: "env \<Rightarrow> Request \<Rightarrow> http_response \<times> event list" where
  \<open>refreshHandler e r =
     (let hdrs = [(''Access-Control-Allow-Origin'', FRONTEND_URL e),
                  (''Access-Control-Allow-Credentials'', ''true'')]
      in if Method r = ''OPTIONS'' then
           (\<lparr>StatusCode = 200,
             Header = hdrs @ [(''Access-Control-Allow-Methods'', ''GET,POST''),
                               (''Access-Control-Allow-Headers'', ''Content-Type, Authorization'')],
             ResponseBody = NoBody\<rparr>, [])
         else if Method r \<noteq> ''GET'' \<and> Method r \<noteq> ''POST'' then
           (respondError hdrs 405 ''Method not allowed'', [])
         else
           (let accessToken = query_Get (Query r) ''access_token'' in
            if blank accessToken then
              (respondError hdrs 401 ''Missing access token in query string'', [])
            else
              (case NewGmailServiceWithClient e accessToken of
                 Inl err \<Rightarrow> (respondError hdrs 500 (''Gmail service error: '' @ err), [])
               | Inr gmailService \<Rightarrow>
              (case fetch_or_respond e hdrs gmailService 2 of
                 (ev1, Inl resp) \<Rightarrow> (resp, ev1)
               | (ev1, Inr dailyTxns) \<Rightarrow>
              (case fetch_or_respond e hdrs gmailService 14 of
                 (ev2, Inl resp) \<Rightarrow> (resp, ev1 @ ev2)
               | (ev2, Inr weeklyTxns) \<Rightarrow>
              (case fetch_or_respond e hdrs gmailService 60 of
                 (ev3, Inl resp) \<Rightarrow> (resp, ev1 @ ev2 @ ev3)
               | (ev3, Inr monthlyTxns) \<Rightarrow>
              (case calculateSummary dailyTxns ''daily'' of
                 Inl err \<Rightarrow> (respondError hdrs 500 err, ev1 @ ev2 @ ev3)
               | Inr dailySummary \<Rightarrow>
              (case calculateSummary weeklyTxns ''weekly'' of
                 Inl err \<Rightarrow> (respondError hdrs 500 err, ev1 @ ev2 @ ev3)
               | Inr weeklySummary \<Rightarrow>
              (case calculateSummary monthlyTxns ''monthly'' of
                 Inl err \<Rightarrow> (respondError hdrs 500 err, ev1 @ ev2 @ ev3)
               | Inr monthlySummary \<Rightarrow>
                 (\<lparr>StatusCode = 200,
                   Header = hdrs @ [(''Content-Type'', ''application/json'')],
                   ResponseBody = Bytes (''{"success":true}'' @ [CHR 0x0A])\<rparr>,
                  ev1 @ ev2 @ ev3
                    @ store_refreshed e (getCacheKey ''daily'')
                        \<lparr>summary = dailySummary, details = dailyTxns\<rparr>
                    @ store_refreshed e (getCacheKey ''weekly'')
                        \<lparr>summary = weeklySummary, details = weeklyTxns\<rparr>
                    @ store_refreshed e (getCacheKey ''monthly'')
                        \<lparr>summary = monthlySummary, details = monthlyTxns\<rparr>))))))))))\<close>

section \<open>Specification-level notions for the summaries\<close>









text \<open>
  For the content extractor: the parts of a tree in depth-first order, a node before its
  children and the children from first to last; the body a single part offers, its
  plain-text decoding before its HTML decoding; and the first body offered in that order,
  the empty string when no part offers one.
\<close>

fun preorder :: "MessagePart \<Rightarrow> MessagePart list"
  and preorder_list :: "MessagePart list \<Rightarrow> MessagePart list" where
  "preorder (MessagePart mt body parts) = MessagePart mt body parts # preorder_list parts"
| "preorder_list [] = []"
| "preorder_list (p # ps) = preorder p @ preorder_list ps"

definition part_text :: "MessagePart \<Rightarrow> string option" where
  "part_text part =
     (case decode_as ''text/plain'' part of
        Some d \<Rightarrow> Some d
      | None \<Rightarrow> decode_as ''text/html'' part)"

definition first_or_empty :: "string list \<Rightarrow> string" where
  "first_or_empty ds = (case ds of [] \<Rightarrow> '''' | d # rest \<Rightarrow> d)"

definition first_decodable :: "MessagePart \<Rightarrow> string" where
  "first_decodable part = first_or_empty (List.map_filter part_text (preorder part))"

text \<open>\<open>strings.Contains\<close>, to say that a text lacks a token.\<close>

fun Contains :: "string \<Rightarrow> string \<Rightarrow> bool" where
  "Contains [] substr = (substr = [])"
| "Contains (c # s) substr = (take (length substr) (c # s) = substr \<or> Contains s substr)"

text \<open>
  For the fetcher: the body of a message after the stripping of the markup, and the
  transaction a listed message contributes, if it can be fetched and parsed.
\<close>

definition stripped_body :: "(string \<Rightarrow> Node option) \<Rightarrow> Message \<Rightarrow> string" where
  "stripped_body hp msg = stripHTMLTags hp (extractMessageContent (Payload msg))"

definition fetched_transaction ::
  "(string \<Rightarrow> Node option) \<Rightarrow> gmail \<Rightarrow> string \<Rightarrow> Transaction option" where
  "fetched_transaction hp g msgId =
     (case Messages_Get g msgId of
        Inl err \<Rightarrow> None
      | Inr message \<Rightarrow>
          (case parseTransactionEmail hp message of
             Inl err \<Rightarrow> None
           | Inr transaction \<Rightarrow> Some transaction))"

section \<open>Example inputs\<close>

text \<open>
  A multipart message whose plain-text part carries a line feed as its data, which decodes
  without error to the empty string, next to an HTML part with the body \<open><b>hi</b>\<close>.
\<close>

definition alternative_with_blank_plain :: MessagePart where
  "alternative_with_blank_plain =
     MessagePart ''multipart/alternative'' None
       [MessagePart ''text/plain'' (Some (MessagePartBody [CHR 0x0A])) [],
        MessagePart ''text/html'' (Some (MessagePartBody ''PGI-aGk8L2I-'')) []]"

text \<open>A nested tree: an image, an HTML part, and a plain-text part later in the order.\<close>

definition nested_html_only :: MessagePart where
  "nested_html_only =
     MessagePart ''multipart/mixed'' None
       [MessagePart ''multipart/alternative'' None
          [MessagePart ''image/png'' (Some (MessagePartBody ''aGk='')) [],
           MessagePart ''text/html'' (Some (MessagePartBody ''PGI-aGk8L2I-'')) []],
        MessagePart ''text/plain'' (Some (MessagePartBody ''aGk='')) []]"

text \<open>
  The message whose only part is an HTML part with the base64url encoding of
  \<open><p>Rs. 1,234.50 on 05-03-24</p>\<close>, and the document the HTML parser builds for that
  body: the paragraph inside the \<open>html\<close> and \<open>body\<close> elements the parser supplies.
\<close>

definition html_only_message :: Message where
  "html_only_message =
     Message ''m1''
       (MessagePart ''text/html''
          (Some (MessagePartBody ''PHA-UnMuIDEsMjM0LjUwIG9uIDA1LTAzLTI0PC9wPg=='')) [])"

definition paragraph_document :: Node where
  "paragraph_document =
     Node DocumentNode ''''
       [Node ElementNode ''html''
          [Node ElementNode ''head'' [],
           Node ElementNode ''body''
             [Node ElementNode ''p'' [Node TextNode ''Rs. 1,234.50 on 05-03-24'' []]]]]"

text \<open>
  The document the HTML parser builds for a text without markup, and a mailbox of three
  plain-text messages, the second of which lacks the \<open>on DD-MM-YY\<close> token. Their data are
  the encodings of \<open>Rs. 250 on 01-02-24\<close>, \<open>Rs. 99 paid\<close> and \<open>Rs. 1,000.00 on 15-02-24\<close>.
\<close>

definition text_document :: "string \<Rightarrow> Node option" where
  "text_document s =
     Some (Node DocumentNode ''''
             [Node ElementNode ''html''
                [Node ElementNode ''head'' [], Node ElementNode ''body'' [Node TextNode s []]]])"

definition plain_message :: "string \<Rightarrow> string \<Rightarrow> Message" where
  "plain_message msgId d = Message msgId (MessagePart ''text/plain'' (Some (MessagePartBody d)) [])"

definition three_messages :: gmail where
  "three_messages =
     \<lparr>Messages_List = (\<lambda>q. Inr [''a1'', ''a2'', ''a3'']),
      Messages_Get = (\<lambda>i.
        if i = ''a1'' then Inr (plain_message ''a1'' ''UnMuIDI1MCBvbiAwMS0wMi0yNA=='')
        else if i = ''a2'' then Inr (plain_message ''a2'' ''UnMuIDk5IHBhaWQ='')
        else if i = ''a3'' then Inr (plain_message ''a3'' ''UnMuIDEsMDAwLjAwIG9uIDE1LTAyLTI0'')
        else Inl (GoogleAPIError 404 ''not found''))\<rparr>"

text \<open>
  A cache that holds, under the key of the filter \<open>all\<close>, the entry the handler stores
  for one transaction of 250, and a JSON codec that maps that entry and its response to
  each other. The provider behind it is the mailbox of three messages.
\<close>

definition cached_all :: string where
  \<open>cached_all = ''{"summary":{"total":250,"previously":0,"changePercentage":0},"details":[{"date":"2024-02-01","amount":250,"description":"Transaction from HTML email"}]}''\<close>

definition cached_response :: TransactionsResponse where
  "cached_response =
     \<lparr>summary = \<lparr>Total = 250, Previously = 0, ChangePercentage = 0\<rparr>,
      details = [\<lparr>Date = ''2024-02-01'', Amount = 250,
                  Description = ''Transaction from HTML email''\<rparr>]\<rparr>"

definition sample_env :: env where
  "sample_env =
     \<lparr>FRONTEND_URL = ''http://localhost:3000'',
      redis_Get = (\<lambda>k. if k = ''transactions:all'' then Some cached_all else None),
      json_Unmarshal = (\<lambda>s. if s = cached_all then Some cached_response else None),
      json_Marshal = (\<lambda>r. if r = cached_response then Some cached_all else None),
      NewGmailServiceWithClient = (\<lambda>token. Inr three_messages),
      html_Parse = text_document,
      Now = (2024, 2, 20)\<rparr>"

text \<open>A request without any access token, and requests with a token for three filters.\<close>

definition tokenless_request :: Request where
  "tokenless_request = \<lparr>Method = ''GET'', Query = []\<rparr>"

definition request_with :: "string \<Rightarrow> Request" where
  "request_with f = \<lparr>Method = ''GET'', Query = [(''filter'', f), (''access_token'', ''ya29.a0'')]\<rparr>"

section \<open>The default period\<close>






section \<open>The monthly period\<close>













text \<open>Transactions in January and March only: March is compared with January.\<close>

lemma monthly_sparse_example: "calculateSummary
     [\<lparr>Date = ''2024-03-05'', Amount = 30, Description = ''''\<rparr>,
      \<lparr>Date = ''2024-01-20'', Amount = 10, Description = ''''\<rparr>,
      \<lparr>Date = ''2024-01-02'', Amount = 5, Description = ''''\<rparr>] ''monthly''
   = Inr \<lparr>Total = 30, Previously = 15, ChangePercentage = 100\<rparr>"
  by code_simp

section \<open>Parsing and formatting dates\<close>

lemma of_char_zero_nine: "of_char CHR ''0'' = (48::nat)" "of_char CHR ''9'' = (57::nat)"
  by simp_all




























section \<open>The daily period\<close>








section \<open>The content extractor\<close>

lemmas base64_eval =
  DecodeString_def b64url_val_def quantum_bytes_def char_of_def is_newline_def bit_0

lemma map_filter_append: "List.map_filter f (xs @ ys) = List.map_filter f xs @ List.map_filter f ys"
  by (simp add: List.map_filter_def)

lemma in_map_filter: "d \<in> set (List.map_filter f xs) \<longleftrightarrow> (\<exists>x\<in>set xs. f x = Some d)"
  by (induction xs) (auto split: option.splits)

lemma first_or_empty_nonempty:
  "ds \<noteq> [] \<Longrightarrow> '''' \<notin> set ds \<Longrightarrow> first_or_empty ds \<noteq> ''''"
  by (cases ds) (auto simp: first_or_empty_def)

lemma first_or_empty_append:
  "first_or_empty (ds @ es) = (if ds = [] then first_or_empty es else first_or_empty ds)"
  by (cases ds) (auto simp: first_or_empty_def)

lemma extract_first_decodable:
  "(\<forall>p\<in>set (preorder part). part_text p \<noteq> Some '''') \<longrightarrow>
     extractMessageContent part = first_or_empty (List.map_filter part_text (preorder part))"
  "(\<forall>p\<in>set (preorder_list parts). part_text p \<noteq> Some '''') \<longrightarrow>
     extract_nested parts = first_or_empty (List.map_filter part_text (preorder_list parts))"
proof (induction part and parts rule: extractMessageContent_extract_nested.induct)
  case (1 mt body parts)
  show ?case
  proof
    assume h: "\<forall>p\<in>set (preorder (MessagePart mt body parts)). part_text p \<noteq> Some ''''"
    let ?p = "MessagePart mt body parts"
    show "extractMessageContent ?p = first_or_empty (List.map_filter part_text (preorder ?p))"
    proof (cases "part_text ?p")
      case None
      then have n: "decode_as ''text/plain'' ?p = None" "decode_as ''text/html'' ?p = None"
        by (auto simp: part_text_def split: option.splits)
      have "extract_nested parts = first_or_empty (List.map_filter part_text (preorder_list parts))"
        using 1 [OF n] h by simp
      then show ?thesis using n None by simp
    next
      case (Some d)
      then have "extractMessageContent ?p = d"
        by (auto simp: part_text_def split: option.splits)
      then show ?thesis using Some by (simp add: first_or_empty_def)
    qed
  qed
next
  case 2
  then show ?case by (simp add: first_or_empty_def)
next
  case (3 nestedPart rest)
  show ?case
  proof
    assume h: "\<forall>p\<in>set (preorder_list (nestedPart # rest)). part_text p \<noteq> Some ''''"
    let ?ds = "List.map_filter part_text (preorder nestedPart)"
    have e: "extractMessageContent nestedPart = first_or_empty ?ds"
      using 3(1) h by simp
    have ne: "'''' \<notin> set ?ds" using h by (auto simp: in_map_filter)
    show "extract_nested (nestedPart # rest) =
            first_or_empty (List.map_filter part_text (preorder_list (nestedPart # rest)))"
    proof (cases "?ds = []")
      case True
      then have c: "extractMessageContent nestedPart = ''''" using e by (simp add: first_or_empty_def)
      have "extract_nested rest = first_or_empty (List.map_filter part_text (preorder_list rest))"
        using 3(2) [OF refl] c h by simp
      then show ?thesis using c True by (simp add: map_filter_append)
    next
      case False
      then have "extractMessageContent nestedPart \<noteq> ''''"
        using e ne first_or_empty_nonempty by simp
      then show ?thesis using e False by (simp add: map_filter_append first_or_empty_append)
    qed
  qed
qed

text \<open>
  Claim C7, for trees in which no text part decodes to the empty string. The extractor
  returns the first body offered in depth-first order, the node before its children and
  plain text before HTML at a node, and the empty string when no part offers a body.
\<close>

theorem extractMessageContent_first_decodable:
  assumes "\<forall>p\<in>set (preorder part). part_text p \<noteq> Some ''''"
  shows "extractMessageContent part = first_decodable part"
  using assms extract_first_decodable(1) [of part] by (simp add: first_decodable_def)

text \<open>
  A part that decodes to the empty string is the first decodable body of its tree, but
  the loop over the nested parts takes its empty result for "nothing found" and goes on
  to the next part.
\<close>

theorem extractMessageContent_counterexample:
  "first_decodable alternative_with_blank_plain = '''' \<and>
   extractMessageContent alternative_with_blank_plain = ''<b>hi</b>''"
  by (simp add: alternative_with_blank_plain_def first_decodable_def first_or_empty_def part_text_def
      decode_as_def base64_eval)

theorem extractMessageContent_first_decodable_witness:
  "map part_text (preorder nested_html_only) = [None, None, None, Some ''<b>hi</b>'', Some ''hi''] \<and>
   extractMessageContent nested_html_only = ''<b>hi</b>'' \<and>
   first_decodable nested_html_only = ''<b>hi</b>''"
proof -
  have h: "\<forall>p\<in>set (preorder nested_html_only). part_text p \<noteq> Some ''''"
    by (simp add: nested_html_only_def part_text_def decode_as_def base64_eval)
  have f: "first_decodable nested_html_only = ''<b>hi</b>''"
    by (simp add: nested_html_only_def first_decodable_def first_or_empty_def part_text_def
        decode_as_def base64_eval)
  have m: "map part_text (preorder nested_html_only) =
             [None, None, None, Some ''<b>hi</b>'', Some ''hi'']"
    by (simp add: nested_html_only_def part_text_def decode_as_def base64_eval)
  show ?thesis using m f extractMessageContent_first_decodable [OF h] by simp
qed

section \<open>The field extractor and the fetcher\<close>

lemma Find_hit:
  "rx_run r s = m # other \<Longrightarrow>
   FindStringSubmatch r s = [take (length s - length (snd m)) s, (case fst m of None \<Rightarrow> '''' | Some g \<Rightarrow> g)]"
  by (subst FindStringSubmatch.simps) simp

lemma Find_miss:
  "rx_run r (c # s) = [] \<Longrightarrow> FindStringSubmatch r (c # s) = FindStringSubmatch r (drop (utf8_width (c # s)) (c # s))"
  by (subst FindStringSubmatch.simps) simp

lemma Find_end: "rx_run r [] = [] \<Longrightarrow> FindStringSubmatch r [] = []"
  by (subst FindStringSubmatch.simps) simp

lemmas regex_eval = Find_hit Find_miss Find_end amountPattern_def datePattern_def rx_plus_def
  rx_opt_def rx_space_def rx_digit_def keep_cap_def byte_in_def Let_def

lemmas fields_eval = extractFields_def remove_commas_def ParseFloat_def dec_value_def
  Parse_dmy_def isDigit_def digit_val_def valid_date_def daysIn_def isLeap_def
  format_year_def pad4_def pad2_def digit_char_def char_of_def bit_0

text \<open>
  Claim C10. The \<open>.\<close> after \<open>Rs\<close> in the amount pattern matches any character: the
  bodies \<open>Rs 100 on 01-02-24\<close> and \<open>RsX100 on 01-02-24\<close> do not contain the token \<open>Rs.\<close>,
  and the field extraction still succeeds on both, with the number as the amount.
\<close>

theorem amount_dot_is_wildcard:
  "\<not> Contains ''Rs 100 on 01-02-24'' ''Rs.'' \<and>
   extractFields ''Rs 100 on 01-02-24'' =
     Inr \<lparr>Date = ''2024-02-01'', Amount = 100, Description = ''Transaction from HTML email''\<rparr> \<and>
   \<not> Contains ''RsX100 on 01-02-24'' ''Rs.'' \<and>
   extractFields ''RsX100 on 01-02-24'' =
     Inr \<lparr>Date = ''2024-02-01'', Amount = 100, Description = ''Transaction from HTML email''\<rparr>"
  by (simp add: regex_eval fields_eval)

lemma FindStringSubmatch_length:
  "FindStringSubmatch r s = [] \<or> length (FindStringSubmatch r s) = 2"
proof (induction r s rule: FindStringSubmatch.induct)
  case (1 r s)
  show ?case
  proof (cases "rx_run r s")
    case Nil
    then show ?thesis using 1 by (subst (1 2) FindStringSubmatch.simps) simp
  next
    case (Cons m other)
    then show ?thesis by (subst (1 2) FindStringSubmatch.simps) simp
  qed
qed

lemma short_match_iff: "length (FindStringSubmatch r s) < 2 \<longleftrightarrow> FindStringSubmatch r s = []"
  using FindStringSubmatch_length [of r s] by auto

lemma extractFields_details:
  "extractFields b = Inl CouldNotParseDetails \<longleftrightarrow>
     FindStringSubmatch amountPattern b = [] \<or> FindStringSubmatch datePattern b = []"
  by (auto simp: extractFields_def short_match_iff Let_def split: option.splits)

lemma fetch_loop_eq:
  "fetch_loop hp g ids acc =
     (map ProviderGet ids, acc @ List.map_filter (fetched_transaction hp g) ids)"
  by (induction ids arbitrary: acc)
     (auto simp: fetched_transaction_def split: sum.splits prod.splits)


text \<open>
  Claim C6. \<open>parseTransactionEmail\<close> fails with "could not parse transaction details"
  exactly when it gets to the two patterns (the message has content) and the amount
  pattern or the date pattern does not match the stripped body. When the listing
  succeeds, \<open>FetchTransactions\<close> fetches every listed message and returns, without an
  error, the transactions of the messages that could be fetched and parsed, in the order
  of the listing: a message that fails is left out and nothing else changes.
\<close>

theorem parse_failure_is_skipped:
  "(parseTransactionEmail hp msg = Inl CouldNotParseDetails \<longleftrightarrow>
      extractMessageContent (Payload msg) \<noteq> '''' \<and>
      (FindStringSubmatch amountPattern (stripped_body hp msg) = [] \<or>
       FindStringSubmatch datePattern (stripped_body hp msg) = [])) \<and>
   parse_error_text CouldNotParseDetails = ''could not parse transaction details'' \<and>
   (Messages_List g (fetch_query now days) = Inr ids \<longrightarrow>
      FetchTransactions hp g now days =
        (ProviderList (fetch_query now days) # map ProviderGet ids,
         Inr (List.map_filter (fetched_transaction hp g) ids)))"
proof -
  have 1: "parseTransactionEmail hp msg = Inl CouldNotParseDetails \<longleftrightarrow>
      extractMessageContent (Payload msg) \<noteq> '''' \<and>
      (FindStringSubmatch amountPattern (stripped_body hp msg) = [] \<or>
       FindStringSubmatch datePattern (stripped_body hp msg) = [])"
    by (simp add: parseTransactionEmail_def stripped_body_def extractFields_details Let_def)
  have 2: "Messages_List g (fetch_query now days) = Inr ids \<longrightarrow>
      FetchTransactions hp g now days =
        (ProviderList (fetch_query now days) # map ProviderGet ids,
         Inr (List.map_filter (fetched_transaction hp g) ids))"
    by (simp add: FetchTransactions_def fetch_loop_eq)
  show ?thesis using 1 2 by simp
qed

lemmas message_eval = parseTransactionEmail_def stripHTMLTags_def decode_as_def
  DecodeString_def b64url_val_def quantum_bytes_def is_newline_def

lemma a1_parsed:
  "parseTransactionEmail text_document (plain_message ''a1'' ''UnMuIDI1MCBvbiAwMS0wMi0yNA=='') =
     Inr \<lparr>Date = ''2024-02-01'', Amount = 250, Description = ''Transaction from HTML email''\<rparr>"
  by (simp add: plain_message_def text_document_def message_eval regex_eval fields_eval)

lemma a2_parsed:
  "parseTransactionEmail text_document (plain_message ''a2'' ''UnMuIDk5IHBhaWQ='') =
     Inl CouldNotParseDetails"
  by (simp add: plain_message_def text_document_def message_eval regex_eval fields_eval)

lemma a3_parsed:
  "parseTransactionEmail text_document (plain_message ''a3'' ''UnMuIDEsMDAwLjAwIG9uIDE1LTAyLTI0'') =
     Inr \<lparr>Date = ''2024-02-15'', Amount = 1000, Description = ''Transaction from HTML email''\<rparr>"
  by (simp add: plain_message_def text_document_def message_eval regex_eval fields_eval)

text \<open>
  Of three listed messages the second lacks the date token: it fails with "could not
  parse transaction details", and the other two are returned.
\<close>

theorem parse_failure_is_skipped_witness:
  "Messages_List three_messages (fetch_query (2024, 2, 20) 14) = Inr [''a1'', ''a2'', ''a3''] \<and>
   parseTransactionEmail text_document (plain_message ''a2'' ''UnMuIDk5IHBhaWQ='')
     = Inl CouldNotParseDetails \<and>
   FindStringSubmatch datePattern
     (stripped_body text_document (plain_message ''a2'' ''UnMuIDk5IHBhaWQ='')) = [] \<and>
   snd (FetchTransactions text_document three_messages (2024, 2, 20) 14) =
     Inr [\<lparr>Date = ''2024-02-01'', Amount = 250, Description = ''Transaction from HTML email''\<rparr>,
          \<lparr>Date = ''2024-02-15'', Amount = 1000, Description = ''Transaction from HTML email''\<rparr>]"
proof -
  have l: "Messages_List three_messages (fetch_query (2024, 2, 20) 14) = Inr [''a1'', ''a2'', ''a3'']"
    by (simp add: three_messages_def)
  have d: "FindStringSubmatch datePattern
     (stripped_body text_document (plain_message ''a2'' ''UnMuIDk5IHBhaWQ='')) = []"
    by (simp add: stripped_body_def plain_message_def text_document_def message_eval regex_eval
        char_of_def bit_0)
  have f: "List.map_filter (fetched_transaction text_document three_messages) [''a1'', ''a2'', ''a3'']
     = [\<lparr>Date = ''2024-02-01'', Amount = 250, Description = ''Transaction from HTML email''\<rparr>,
        \<lparr>Date = ''2024-02-15'', Amount = 1000, Description = ''Transaction from HTML email''\<rparr>]"
    by (simp add: List.map_filter_def fetched_transaction_def three_messages_def a1_parsed a2_parsed
        a3_parsed)
  show ?thesis
    using parse_failure_is_skipped [of text_document "plain_message ''a2'' ''UnMuIDk5IHBhaWQ=''"
        three_messages "(2024, 2, 20)" 14 "[''a1'', ''a2'', ''a3'']"] l d f a2_parsed
    by simp
qed

text \<open>
  Claim C2. For the message whose only part is an HTML part with the base64url encoding
  of \<open><p>Rs. 1,234.50 on 05-03-24</p>\<close>, the content extraction yields that markup, the
  stripping yields the text of the paragraph, and the field extraction yields the date
  2024-03-05 and the amount 1234.50. The HTML parser is outside the program: the theorem
  takes the document it builds for this body as given.
\<close>

theorem html_only_message_parsed:
  assumes "hp ''<p>Rs. 1,234.50 on 05-03-24</p>'' = Some paragraph_document"
  shows "extractMessageContent (Payload html_only_message) = ''<p>Rs. 1,234.50 on 05-03-24</p>'' \<and>
         stripped_body hp html_only_message = ''Rs. 1,234.50 on 05-03-24'' \<and>
         parseTransactionEmail hp html_only_message =
           Inr \<lparr>Date = ''2024-03-05'', Amount = 1234.50,
                Description = ''Transaction from HTML email''\<rparr>"
proof -
  have c: "extractMessageContent (Payload html_only_message) = ''<p>Rs. 1,234.50 on 05-03-24</p>''"
    by (simp add: html_only_message_def decode_as_def DecodeString_def b64url_val_def
        quantum_bytes_def is_newline_def char_of_def bit_0)
  have s: "stripped_body hp html_only_message = ''Rs. 1,234.50 on 05-03-24''"
    using assms by (simp add: stripped_body_def c stripHTMLTags_def paragraph_document_def)
  have f: "extractFields ''Rs. 1,234.50 on 05-03-24'' =
     Inr \<lparr>Date = ''2024-03-05'', Amount = 1234.50, Description = ''Transaction from HTML email''\<rparr>"
    by (simp add: regex_eval fields_eval)
  have "parseTransactionEmail hp html_only_message = extractFields ''Rs. 1,234.50 on 05-03-24''"
    using s by (simp add: parseTransactionEmail_def c stripped_body_def)
  then show ?thesis using c s f by simp
qed

theorem html_only_message_parsed_witness:
  "(\<lambda>s. Some paragraph_document) ''<p>Rs. 1,234.50 on 05-03-24</p>'' = Some paragraph_document \<and>
   parseTransactionEmail (\<lambda>s. Some paragraph_document) html_only_message =
     Inr \<lparr>Date = ''2024-03-05'', Amount = 1234.50, Description = ''Transaction from HTML email''\<rparr>"
  using html_only_message_parsed [of "\<lambda>s. Some paragraph_document"] by simp

section \<open>The transactions endpoint\<close>

lemma blank_Nil: "blank []"
  by (subst blank.simps) simp


lemmas handler_eval = transactionsHandler_def request_filter_def query_Get_def getCacheKey_def
  cache_hit_def respondJSON_def Encode_def

text \<open>
  Claim C1 says that a request without a token is answered with 401 and no payload,
  whatever the cache holds. The handler reads the cache before it looks at the token:
  with an entry for the filter in the cache, the request without a token is answered
  with status 200 and the cached transactions.
\<close>

theorem cache_is_served_without_token:
  "query_Get (Query tokenless_request) ''access_token'' = '''' \<and>
   blank (query_Get (Query tokenless_request) ''access_token'') \<and>
   transactionsHandler sample_env tokenless_request =
     (\<lparr>StatusCode = 200,
       Header = [(''Access-Control-Allow-Origin'', ''http://localhost:3000''),
                 (''Access-Control-Allow-Credentials'', ''true''),
                 (''Content-Type'', ''application/json'')],
       ResponseBody = Bytes (cached_all @ [CHR 0x0A])\<rparr>,
      [CacheGet ''transactions:all''])"
  by (simp add: handler_eval tokenless_request_def sample_env_def blank_Nil)

text \<open>Without an entry in the cache the same request is refused with 401.\<close>

lemma missing_token_on_miss:
  assumes "Method r = ''GET''" and "cache_hit e (getCacheKey (request_filter r)) = None"
    and "blank (query_Get (Query r) ''access_token'')"
  shows "StatusCode (fst (transactionsHandler e r)) = 401 \<and>
         ResponseBody (fst (transactionsHandler e r)) =
           ErrorJSON ''Missing access token in query string'' 401 \<and>
         snd (transactionsHandler e r) = [CacheGet (getCacheKey (request_filter r))]"
  using assms
  by (simp add: transactionsHandler_def serve_uncached_def respondError_def Let_def)

text \<open>The other endpoint refuses a request without a token before it does anything.\<close>

lemma refresh_requires_token:
  assumes "Method r = ''GET'' \<or> Method r = ''POST''"
    and "blank (query_Get (Query r) ''access_token'')"
  shows "StatusCode (fst (refreshHandler e r)) = 401 \<and>
         ResponseBody (fst (refreshHandler e r)) =
           ErrorJSON ''Missing access token in query string'' 401 \<and>
         snd (refreshHandler e r) = []"
  using assms by (auto simp: refreshHandler_def respondError_def Let_def)

lemma handler_cache_hit:
  assumes "Method r = ''GET''" and "cache_hit e (getCacheKey (request_filter r)) = Some response"
  shows "transactionsHandler e r =
           (respondJSON e [(''Access-Control-Allow-Origin'', FRONTEND_URL e),
                           (''Access-Control-Allow-Credentials'', ''true'')] response,
            [CacheGet (getCacheKey (request_filter r))])"
  using assms by (simp add: transactionsHandler_def Let_def)

text \<open>
  Claim C5, with the body as the handler writes it. When the key of the filter has an
  entry that decodes, the response has status 200, its body is the encoding of the
  decoded entry followed by a line feed (for an entry that decodes and encodes back to
  itself, as the entries the handler stores do: the stored bytes followed by a line
  feed), the only effect is the read of the cache, and the provider is not contacted.
\<close>

theorem cache_hit_response:
  assumes "Method r = ''GET''"
    and "redis_Get e (getCacheKey (request_filter r)) = Some cached"
    and "json_Unmarshal e cached = Some response"
  shows "StatusCode (fst (transactionsHandler e r)) = 200 \<and>
         ResponseBody (fst (transactionsHandler e r)) = Encode e response \<and>
         (json_Marshal e response = Some cached \<longrightarrow>
            ResponseBody (fst (transactionsHandler e r)) = Bytes (cached @ [CHR 0x0A])) \<and>
         snd (transactionsHandler e r) = [CacheGet (getCacheKey (request_filter r))] \<and>
         filter is_provider_event (snd (transactionsHandler e r)) = []"
proof -
  have h: "cache_hit e (getCacheKey (request_filter r)) = Some response"
    using assms(2,3) by (simp add: cache_hit_def)
  show ?thesis
    by (simp add: handler_cache_hit [OF assms(1) h] respondJSON_def Encode_def is_provider_event_def)
qed

text \<open>
  The body on a hit is not the stored bytes themselves: the encoder ends its output with
  a line feed that the stored entry does not have.
\<close>

theorem cache_hit_response_counterexample:
  "Method (request_with ''all'') = ''GET'' \<and>
   redis_Get sample_env (getCacheKey (request_filter (request_with ''all''))) = Some cached_all \<and>
   json_Unmarshal sample_env cached_all = Some cached_response \<and>
   ResponseBody (fst (transactionsHandler sample_env (request_with ''all'')))
     = Bytes (cached_all @ [CHR 0x0A]) \<and>
   ResponseBody (fst (transactionsHandler sample_env (request_with ''all''))) \<noteq> Bytes cached_all"
  by (simp add: handler_eval request_with_def sample_env_def)

theorem cache_hit_response_witness:
  "Method (request_with ''all'') = ''GET'' \<and>
   redis_Get sample_env (getCacheKey (request_filter (request_with ''all''))) = Some cached_all \<and>
   json_Unmarshal sample_env cached_all = Some cached_response \<and>
   json_Marshal sample_env cached_response = Some cached_all \<and>
   StatusCode (fst (transactionsHandler sample_env (request_with ''all''))) = 200 \<and>
   ResponseBody (fst (transactionsHandler sample_env (request_with ''all'')))
     = Bytes (cached_all @ [CHR 0x0A]) \<and>
   snd (transactionsHandler sample_env (request_with ''all'')) = [CacheGet ''transactions:all'']"
proof -
  have 1: "Method (request_with ''all'') = ''GET''" by (simp add: request_with_def)
  have 2: "redis_Get sample_env (getCacheKey (request_filter (request_with ''all''))) = Some cached_all"
    by (simp add: request_with_def sample_env_def request_filter_def query_Get_def getCacheKey_def)
  have 3: "json_Unmarshal sample_env cached_all = Some cached_response"
    by (simp add: sample_env_def)
  have 4: "json_Marshal sample_env cached_response = Some cached_all"
    by (simp add: sample_env_def)
  have 5: "getCacheKey (request_filter (request_with ''all'')) = ''transactions:all''"
    by (simp add: request_with_def request_filter_def query_Get_def getCacheKey_def)
  show ?thesis
    using cache_hit_response [OF 1 2 3] 1 2 3 4 5 by (simp add: Encode_def)
qed




text \<open>The first call of a fetch is the listing for the window of the given days.\<close>

lemma FetchTransactions_first_event:
  "\<exists>rest. fst (FetchTransactions hp g now d) = ProviderList (fetch_query now d) # rest"
  by (cases "Messages_List g (fetch_query now d)")
     (simp_all add: FetchTransactions_def fetch_loop_eq)











end
